theory Spec2Isabelle
  imports Complex_Main
begin

section \<open>JavaScript numbers\<close>

text \<open>
  A JavaScript \<^verbatim>\<open>number\<close> is a finite value, one of the two infinities, or NaN.
  Finite values are carried as rationals: every finite double is one. The operations
  below follow IEEE 754 on the special values (NaN poisons arithmetic and makes every
  comparison false). On finite values the arithmetic is exact, so the rounding of a
  double subtraction or division is not represented, and neither is the sign of zero.
\<close>

datatype jsnum = NaN | NegInf | Fin rat | PosInf

fun js_lt :: "jsnum \<Rightarrow> jsnum \<Rightarrow> bool" where
  "js_lt NaN _ = False"
| "js_lt _ NaN = False"
| "js_lt PosInf _ = False"
| "js_lt _ NegInf = False"
| "js_lt NegInf _ = True"
| "js_lt _ PosInf = True"
| "js_lt (Fin a) (Fin b) = (a < b)"

definition js_gt :: "jsnum \<Rightarrow> jsnum \<Rightarrow> bool" where
  "js_gt a b = js_lt b a"

text \<open>\<^verbatim>\<open>a <= b\<close>: false when either side is NaN, otherwise the negation of \<^verbatim>\<open>b < a\<close>.\<close>

definition js_le :: "jsnum \<Rightarrow> jsnum \<Rightarrow> bool" where
  "js_le a b = (a \<noteq> NaN \<and> b \<noteq> NaN \<and> \<not> js_lt b a)"

text \<open>\<^verbatim>\<open>Math.max\<close> and \<^verbatim>\<open>Math.min\<close> of two arguments: NaN if either is NaN.\<close>

definition Math_max :: "jsnum \<Rightarrow> jsnum \<Rightarrow> jsnum" where
  "Math_max a b = (if a = NaN \<or> b = NaN then NaN else if js_lt a b then b else a)"

definition Math_min :: "jsnum \<Rightarrow> jsnum \<Rightarrow> jsnum" where
  "Math_min a b = (if a = NaN \<or> b = NaN then NaN else if js_lt b a then b else a)"

fun Math_abs :: "jsnum \<Rightarrow> jsnum" where
  "Math_abs NaN = NaN"
| "Math_abs NegInf = PosInf"
| "Math_abs PosInf = PosInf"
| "Math_abs (Fin a) = Fin \<bar>a\<bar>"

fun js_sub :: "jsnum \<Rightarrow> jsnum \<Rightarrow> jsnum" where
  "js_sub NaN _ = NaN"
| "js_sub _ NaN = NaN"
| "js_sub PosInf PosInf = NaN"
| "js_sub NegInf NegInf = NaN"
| "js_sub PosInf _ = PosInf"
| "js_sub NegInf _ = NegInf"
| "js_sub (Fin a) PosInf = NegInf"
| "js_sub (Fin a) NegInf = PosInf"
| "js_sub (Fin a) (Fin b) = Fin (a - b)"

text \<open>
  Division. A zero divisor is the positive zero: \<^verbatim>\<open>x / 0\<close> is the infinity of the sign
  of \<^verbatim>\<open>x\<close>, and \<^verbatim>\<open>0 / 0\<close> is NaN.
\<close>

fun js_div :: "jsnum \<Rightarrow> jsnum \<Rightarrow> jsnum" where
  "js_div NaN _ = NaN"
| "js_div _ NaN = NaN"
| "js_div (Fin a) (Fin b) =
     (if b \<noteq> 0 then Fin (a / b)
      else if a = 0 then NaN else if 0 < a then PosInf else NegInf)"
| "js_div (Fin a) _ = Fin 0"
| "js_div PosInf (Fin b) = (if 0 \<le> b then PosInf else NegInf)"
| "js_div NegInf (Fin b) = (if 0 \<le> b then NegInf else PosInf)"
| "js_div _ _ = NaN"

text \<open>Truthiness of a number: \<^verbatim>\<open>0\<close> and NaN are falsy. \<^verbatim>\<open>x || d\<close> on numbers.\<close>

definition js_truthy :: "jsnum \<Rightarrow> bool" where
  "js_truthy x = (x \<noteq> NaN \<and> x \<noteq> Fin 0)"

definition js_or :: "jsnum \<Rightarrow> jsnum \<Rightarrow> jsnum" where
  "js_or x d = (if js_truthy x then x else d)"

text \<open>
  \<^verbatim>\<open>x ?? d\<close> where \<^verbatim>\<open>x\<close> is a number: a number is never \<^verbatim>\<open>null\<close> or
  \<^verbatim>\<open>undefined\<close>, NaN included, so the right operand is never taken.
\<close>

definition js_nullish_num :: "jsnum \<Rightarrow> jsnum \<Rightarrow> jsnum" where
  "js_nullish_num x d = x"

section \<open>Shared types (types.ts)\<close>

record VideoMetadata =
  width :: jsnum
  height :: jsnum
  durationSec :: jsnum
  aspectRatio :: jsnum
  hasAudio :: bool

record ShortsValidation =
  isVertical :: bool
  aspectOk :: bool
  durationOk :: bool
  shortsEligible :: bool
  reasons :: "string list"

datatype ConversionMode = pad | blur

record ProcessOptions =
  mode :: ConversionMode
  targetWidth :: jsnum
  targetHeight :: jsnum
  maxDurationSec :: jsnum
  tolerance :: jsnum
  forceConvert :: bool

definition DEFAULT_PROCESS_OPTIONS :: ProcessOptions where
  "DEFAULT_PROCESS_OPTIONS =
     \<lparr> mode = blur, targetWidth = Fin 1080, targetHeight = Fin 1920,
       maxDurationSec = Fin 60, tolerance = Fin (8 / 100), forceConvert = False \<rparr>"

definition TARGET_ASPECT :: jsnum where
  "TARGET_ASPECT = js_div (Fin 9) (Fin 16)"

definition MAX_FILE_SIZE_BYTES :: nat where
  "MAX_FILE_SIZE_BYTES = 200 * 1024 * 1024"

section \<open>Eligibility (utils/validate.ts)\<close>

text \<open>
  \<^verbatim>\<open>reasons\<close> starts empty and receives one \<^verbatim>\<open>push\<close> per failed criterion, in the
  order of the three \<^verbatim>\<open>if\<close> statements.
\<close>

definition push :: "'a list \<Rightarrow> 'a \<Rightarrow> 'a list" where
  "push xs x = xs @ [x]"

definition validateShorts :: "VideoMetadata \<Rightarrow> ProcessOptions \<Rightarrow> ShortsValidation" where
  "validateShorts meta options =
     (let maxDur = maxDurationSec options;
          tol = tolerance options;
          vertical = js_gt (height meta) (width meta);
          aspect = aspectRatio meta;
          aspOk = js_le (Math_abs (js_sub aspect TARGET_ASPECT)) tol;
          durOk = js_le (durationSec meta) maxDur;
          r0 = [];
          r1 = (if \<not> vertical then push r0 ''NOT_VERTICAL'' else r0);
          r2 = (if \<not> aspOk then push r1 ''ASPECT_RATIO_MISMATCH'' else r1);
          r3 = (if \<not> durOk then push r2 ''DURATION_EXCEEDED'' else r2);
          eligible = (durOk \<and> vertical \<and> aspOk)
      in \<lparr> isVertical = vertical, aspectOk = aspOk, durationOk = durOk,
           shortsEligible = eligible, reasons = r3 \<rparr>)"

section \<open>Strings and paths of the runtime\<close>

text \<open>
  A \<^typ>\<open>string\<close> stands for a JavaScript string, one \<^typ>\<open>char\<close> per code unit. Code
  units above \<^verbatim>\<open>0xFF\<close> are not represented; every function below treats them as it
  treats the units \<^verbatim>\<open>0x80\<close> to \<^verbatim>\<open>0xFF\<close> (they are no letter, digit, dot, dash,
  underscore or slash), except that the white space of \<^verbatim>\<open>parseInt\<close> beyond Latin-1 is
  missing.
\<close>

definition charCode :: "char \<Rightarrow> nat" where
  "charCode c = of_char c"

text \<open>\<^verbatim>\<open>s.slice(a, b)\<close> for \<^verbatim>\<open>0 <= a\<close> and \<^verbatim>\<open>0 <= b\<close>.\<close>

definition slice :: "string \<Rightarrow> int \<Rightarrow> int \<Rightarrow> string" where
  "slice s a b = take (nat b - nat a) (drop (nat a) s)"

text \<open>\<^verbatim>\<open>s.includes(sub)\<close>: \<^verbatim>\<open>sub\<close> occurs in \<^verbatim>\<open>s\<close> as a contiguous run.\<close>

fun str_includes :: "string \<Rightarrow> string \<Rightarrow> bool" where
  "str_includes [] sub = (sub = [])"
| "str_includes (c # cs) sub = (take (length sub) (c # cs) = sub \<or> str_includes cs sub)"

subsection \<open>path.extname and path.basename (Node, POSIX)\<close>

text \<open>
  Both functions of Node's \<^verbatim>\<open>path\<close> module scan the string from its last index down
  to 0. The loops are transcribed with their variables; the argument \<^term>\<open>Suc i\<close> of a
  loop function means that index \<^term>\<open>i\<close> is the next to be visited, and a
  \<^verbatim>\<open>break\<close> returns the state without recursion.
\<close>

record ExtScan =
  startDot :: int
  startPart :: int
  endPart :: int
  matchedSlash :: bool
  preDotState :: int

fun extnameLoop :: "string \<Rightarrow> nat \<Rightarrow> ExtScan \<Rightarrow> ExtScan" where
  "extnameLoop p 0 s = s"
| "extnameLoop p (Suc i) s =
     (if p ! i = CHR ''/'' then
        (if \<not> matchedSlash s then s\<lparr>startPart := int i + 1\<rparr>
         else extnameLoop p i s)
      else
        (let s1 = (if endPart s = - 1
                   then s\<lparr>matchedSlash := False, endPart := int i + 1\<rparr> else s);
             s2 = (if p ! i = CHR ''.'' then
                     (if startDot s1 = - 1 then s1\<lparr>startDot := int i\<rparr>
                      else if preDotState s1 \<noteq> 1 then s1\<lparr>preDotState := 1\<rparr>
                      else s1)
                   else if startDot s1 \<noteq> - 1 then s1\<lparr>preDotState := - 1\<rparr>
                   else s1)
         in extnameLoop p i s2))"

definition extname :: "string \<Rightarrow> string" where
  "extname p =
     (let s = extnameLoop p (length p)
                \<lparr>startDot = - 1, startPart = 0, endPart = - 1,
                 matchedSlash = True, preDotState = 0\<rparr>
      in if startDot s = - 1 \<or> endPart s = - 1 \<or> preDotState s = 0 \<or>
            (preDotState s = 1 \<and> startDot s = endPart s - 1 \<and>
             startDot s = startPart s + 1)
         then []
         else slice p (startDot s) (endPart s))"

record BaseScan =
  bStart :: int
  bEnd :: int
  bMatchedSlash :: bool
  extIdx :: int
  firstNonSlashEnd :: int

fun basenameSuffixLoop :: "string \<Rightarrow> string \<Rightarrow> nat \<Rightarrow> BaseScan \<Rightarrow> BaseScan" where
  "basenameSuffixLoop p suffix 0 s = s"
| "basenameSuffixLoop p suffix (Suc i) s =
     (if p ! i = CHR ''/'' then
        (if \<not> bMatchedSlash s then s\<lparr>bStart := int i + 1\<rparr>
         else basenameSuffixLoop p suffix i s)
      else
        (let s1 = (if firstNonSlashEnd s = - 1
                   then s\<lparr>bMatchedSlash := False, firstNonSlashEnd := int i + 1\<rparr>
                   else s);
             s2 = (if 0 \<le> extIdx s1 then
                     (if p ! i = suffix ! nat (extIdx s1) then
                        (if extIdx s1 - 1 = - 1
                         then s1\<lparr>extIdx := extIdx s1 - 1, bEnd := int i\<rparr>
                         else s1\<lparr>extIdx := extIdx s1 - 1\<rparr>)
                      else s1\<lparr>extIdx := - 1, bEnd := firstNonSlashEnd s1\<rparr>)
                   else s1)
         in basenameSuffixLoop p suffix i s2))"

fun basenamePlainLoop :: "string \<Rightarrow> nat \<Rightarrow> BaseScan \<Rightarrow> BaseScan" where
  "basenamePlainLoop p 0 s = s"
| "basenamePlainLoop p (Suc i) s =
     (if p ! i = CHR ''/'' then
        (if \<not> bMatchedSlash s then s\<lparr>bStart := int i + 1\<rparr>
         else basenamePlainLoop p i s)
      else if bEnd s = - 1
        then basenamePlainLoop p i (s\<lparr>bMatchedSlash := False, bEnd := int i + 1\<rparr>)
        else basenamePlainLoop p i s)"

definition basename :: "string \<Rightarrow> string \<Rightarrow> string" where
  "basename p suffix =
     (let init = \<lparr>bStart = 0, bEnd = - 1, bMatchedSlash = True,
                  extIdx = int (length suffix) - 1, firstNonSlashEnd = - 1\<rparr>
      in if 0 < length suffix \<and> length suffix \<le> length p then
           (if suffix = p then []
            else
              (let s = basenameSuffixLoop p suffix (length p) init;
                   e = (if bStart s = bEnd s then firstNonSlashEnd s
                        else if bEnd s = - 1 then int (length p) else bEnd s)
               in slice p (bStart s) e))
         else
           (let s = basenamePlainLoop p (length p) init
            in if bEnd s = - 1 then [] else slice p (bStart s) (bEnd s)))"

subsection \<open>parseInt with radix 10\<close>

text \<open>
  \<^verbatim>\<open>parseInt(s, 10)\<close>: leading white space is skipped, one sign is read, then the
  longest run of decimal digits; no digit gives NaN. The value is converted to a
  number, which is infinite from \<^verbatim>\<open>2^1024 - 2^970\<close> on; below that the integer is
  kept exact.
\<close>

definition isStrWhiteSpace :: "char \<Rightarrow> bool" where
  "isStrWhiteSpace c = (charCode c \<in> {9, 10, 11, 12, 13, 32, 160})"

definition isDigit :: "char \<Rightarrow> bool" where
  "isDigit c = (48 \<le> charCode c \<and> charCode c \<le> 57)"

definition digitsValue :: "string \<Rightarrow> int" where
  "digitsValue ds = foldl (\<lambda>acc d. 10 * acc + (int (charCode d) - 48)) 0 ds"

definition parseInt10 :: "string \<Rightarrow> jsnum" where
  "parseInt10 s =
     (let t = dropWhile isStrWhiteSpace s;
          neg = (t \<noteq> [] \<and> hd t = CHR ''-'');
          u = (if t \<noteq> [] \<and> (hd t = CHR ''-'' \<or> hd t = CHR ''+'') then tl t else t);
          ds = takeWhile isDigit u
      in if ds = [] then NaN
         else if 2 ^ 1024 - 2 ^ 970 \<le> digitsValue ds
           then (if neg then NegInf else PosInf)
         else if neg then Fin (- of_int (digitsValue ds))
         else Fin (of_int (digitsValue ds)))"

definition Number_isFinite :: "jsnum \<Rightarrow> bool" where
  "Number_isFinite n = (case n of Fin _ \<Rightarrow> True | _ \<Rightarrow> False)"

section \<open>Temporary files (utils/tmp.ts)\<close>

definition allowedChar :: "char \<Rightarrow> bool" where
  "allowedChar c =
     ((97 \<le> charCode c \<and> charCode c \<le> 122) \<or> (65 \<le> charCode c \<and> charCode c \<le> 90) \<or>
      (48 \<le> charCode c \<and> charCode c \<le> 57) \<or>
      c = CHR ''.'' \<or> c = CHR ''_'' \<or> c = CHR ''-'')"

text \<open>
  \<^verbatim>\<open>name.replace(/[^a-zA-Z0-9._-]/g, '_').slice(0, 200) || 'video'\<close>: an empty
  string is the only falsy string.
\<close>

definition sanitizeFilename :: "string \<Rightarrow> string" where
  "sanitizeFilename name =
     (let replaced = map (\<lambda>c. if allowedChar c then c else CHR ''_'') name;
          cut = slice replaced 0 200
      in if cut = [] then ''video'' else cut)"

section \<open>Transcode timeout (utils/ffmpeg.ts)\<close>

definition MIN_TIMEOUT_SEC :: jsnum where
  "MIN_TIMEOUT_SEC = Fin 60"

definition MAX_TIMEOUT_SEC :: jsnum where
  "MAX_TIMEOUT_SEC = Fin 3600"

text \<open>
  Modelled from the spec: the constant \<^verbatim>\<open>FFMPEG_TIMEOUT_SEC_DEFAULT\<close> is imported from
  \<^verbatim>\<open>types.ts\<close>, whose available text predates it. The header comment of
  \<^verbatim>\<open>ffmpeg.ts\<close> and the README both give the default as 600 seconds.
\<close>

definition FFMPEG_TIMEOUT_SEC_DEFAULT :: jsnum where
  "FFMPEG_TIMEOUT_SEC_DEFAULT = Fin 600"

text \<open>The argument is \<^verbatim>\<open>process.env.FFMPEG_TIMEOUT_SEC\<close>; \<^term>\<open>None\<close> is \<^verbatim>\<open>undefined\<close>.\<close>

definition getFfmpegTimeoutSec :: "string option \<Rightarrow> jsnum" where
  "getFfmpegTimeoutSec raw =
     (case raw of
        None \<Rightarrow> FFMPEG_TIMEOUT_SEC_DEFAULT
      | Some r \<Rightarrow>
          if r = [] then FFMPEG_TIMEOUT_SEC_DEFAULT
          else
            (let n = parseInt10 r
             in if \<not> Number_isFinite n \<or> js_lt n MIN_TIMEOUT_SEC
                then FFMPEG_TIMEOUT_SEC_DEFAULT
                else Math_min n MAX_TIMEOUT_SEC))"

section \<open>Request options (routes/process.ts)\<close>

text \<open>
  A field of the request body is a JavaScript value. \<^verbatim>\<open>Number(v)\<close> is fixed by the
  language on every value but a string, where it is the engine's string-to-number
  conversion; that conversion is the parameter \<open>num\<close> below.
\<close>

datatype jsval = JUndefined | JNull | JBool bool | JNum jsnum | JStr string

type_synonym Body = "string \<Rightarrow> jsval option"

definition getField :: "Body \<Rightarrow> string \<Rightarrow> jsval" where
  "getField body k = (case body k of None \<Rightarrow> JUndefined | Some v \<Rightarrow> v)"

fun toNumber :: "(string \<Rightarrow> jsnum) \<Rightarrow> jsval \<Rightarrow> jsnum" where
  "toNumber num JUndefined = NaN"
| "toNumber num JNull = Fin 0"
| "toNumber num (JBool b) = (if b then Fin 1 else Fin 0)"
| "toNumber num (JNum n) = n"
| "toNumber num (JStr s) = num s"

definition parseProcessOptions :: "(string \<Rightarrow> jsnum) \<Rightarrow> Body \<Rightarrow> ProcessOptions" where
  "parseProcessOptions num body =
     (let modeRaw = getField body ''mode'';
          mode' = (if modeRaw = JStr ''pad'' then pad
                   else if modeRaw = JStr ''blur'' then blur
                   else mode DEFAULT_PROCESS_OPTIONS);
          targetWidth' = Math_max (Fin 1) (Math_min (Fin 4096)
            (js_or (toNumber num (getField body ''targetWidth''))
                   (targetWidth DEFAULT_PROCESS_OPTIONS)));
          targetHeight' = Math_max (Fin 1) (Math_min (Fin 4096)
            (js_or (toNumber num (getField body ''targetHeight''))
                   (targetHeight DEFAULT_PROCESS_OPTIONS)));
          maxDurationSec' = Math_max (Fin 1) (Math_min (Fin 300)
            (js_or (toNumber num (getField body ''maxDurationSec''))
                   (maxDurationSec DEFAULT_PROCESS_OPTIONS)));
          tolerance' = Math_max (Fin (1 / 1000)) (Math_min (Fin (5 / 10))
            (js_nullish_num (toNumber num (getField body ''tolerance''))
                            (tolerance DEFAULT_PROCESS_OPTIONS)));
          forceConvert' = (getField body ''forceConvert'' = JStr ''true'' \<or>
                           getField body ''forceConvert'' = JBool True)
      in \<lparr> mode = mode', targetWidth = targetWidth', targetHeight = targetHeight',
           maxDurationSec = maxDurationSec', tolerance = tolerance',
           forceConvert = forceConvert' \<rparr>)"

section \<open>The workspace on disk (utils/tmp.ts)\<close>

text \<open>
  A path is the list of its components. The state of one request's temporary
  directory is a \<^typ>\<open>'a option\<close> of trees: \<^term>\<open>None\<close> when the directory does not
  exist. A file carries its bytes.
\<close>

type_synonym fpath = "string list"

datatype node = File string | Dir "(string \<times> node) list"

text \<open>
  \<^verbatim>\<open>rmDirRecursive\<close>. The predicate \<open>deny\<close> tells which entries the operating system
  refuses to remove: there \<^verbatim>\<open>unlinkSync\<close> or \<^verbatim>\<open>rmdirSync\<close> throws. The function has
  no handler of its own, so a throw leaves the loop and the function at once. The
  result is the exception, if any, and what is left of the directory.
\<close>

fun rmDirNode :: "(fpath \<Rightarrow> bool) \<Rightarrow> fpath \<Rightarrow> node \<Rightarrow> string option \<times> node option"
  and rmEntries :: "(fpath \<Rightarrow> bool) \<Rightarrow> fpath \<Rightarrow> (string \<times> node) list
                     \<Rightarrow> string option \<times> (string \<times> node) list"
where
  "rmDirNode deny dir (File bytes) = (Some ''ENOTDIR'', Some (File bytes))"
| "rmDirNode deny dir (Dir es) =
     (case rmEntries deny dir es of
        (Some e, left) \<Rightarrow> (Some e, Some (Dir left))
      | (None, left) \<Rightarrow>
          if deny dir then (Some ''EACCES'', Some (Dir left)) else (None, None))"
| "rmEntries deny dir [] = (None, [])"
| "rmEntries deny dir ((name, File bytes) # rest) =
     (if deny (dir @ [name]) then (Some ''EACCES'', (name, File bytes) # rest)
      else rmEntries deny dir rest)"
| "rmEntries deny dir ((name, Dir sub) # rest) =
     (case rmDirNode deny (dir @ [name]) (Dir sub) of
        (Some e, Some n) \<Rightarrow> (Some e, (name, n) # rest)
      | (Some e, None) \<Rightarrow> (Some e, rest)
      | (None, _) \<Rightarrow> rmEntries deny dir rest)"

definition rmDirRecursive ::
    "(fpath \<Rightarrow> bool) \<Rightarrow> fpath \<Rightarrow> node option \<Rightarrow> string option \<times> node option" where
  "rmDirRecursive deny dir ws =
     (case ws of None \<Rightarrow> (None, None) | Some n \<Rightarrow> rmDirNode deny dir n)"

definition outputPath :: "fpath \<Rightarrow> fpath" where
  "outputPath dir = dir @ [''output.mp4'']"

definition assertFileSize :: "(jsnum \<Rightarrow> string) \<Rightarrow> nat \<Rightarrow> string + unit" where
  "assertFileSize str bytes =
     (if MAX_FILE_SIZE_BYTES < bytes
      then Inl (''File size exceeds '' @ str (Fin 200) @ ''MB limit'')
      else Inr ())"

text \<open>Reading the workspace: the node at a path below the temporary directory.\<close>

fun lookupIn :: "node option \<Rightarrow> fpath \<Rightarrow> node option" where
  "lookupIn ws [] = ws"
| "lookupIn None (c # cs) = None"
| "lookupIn (Some (File bytes)) (c # cs) = None"
| "lookupIn (Some (Dir es)) (c # cs) = lookupIn (map_of es c) cs"

definition resolve :: "fpath \<Rightarrow> node option \<Rightarrow> fpath \<Rightarrow> node option" where
  "resolve tmpDir ws p =
     (if take (length tmpDir) p = tmpDir then lookupIn ws (drop (length tmpDir) p)
      else None)"

definition existsSync :: "fpath \<Rightarrow> node option \<Rightarrow> fpath \<Rightarrow> bool" where
  "existsSync tmpDir ws p = (resolve tmpDir ws p \<noteq> None)"

text \<open>The transcoder process writing a file directly below the temporary directory.\<close>

definition writeFile :: "node option \<Rightarrow> string \<Rightarrow> string \<Rightarrow> node option" where
  "writeFile ws name bytes =
     (case ws of
        Some (Dir es) \<Rightarrow> Some (Dir (filter (\<lambda>e. fst e \<noteq> name) es @ [(name, File bytes)]))
      | _ \<Rightarrow> ws)"

section \<open>The transcoder call (utils/ffmpeg.ts)\<close>

text \<open>
  \<^verbatim>\<open>convertToShorts\<close> spawns the process, arms a timer and registers three callbacks;
  all of them run on the single event loop, one after the other. The state below holds
  the variables the callbacks share (\<^verbatim>\<open>settled\<close>, \<^verbatim>\<open>stderr\<close>), whether the timer has
  been cleared and the process killed, and every call made to \<^verbatim>\<open>reject\<close>
  (\<^term>\<open>Inl\<close> with the message) or \<^verbatim>\<open>resolve\<close> (\<^term>\<open>Inr\<close>), in order. The
  argument vector handed to \<^verbatim>\<open>spawn\<close> plays no part in the callbacks and is left out.
\<close>

datatype ProcEvent =
    TimerFired
  | StderrData string
  | ProcError string
  | ProcClose "int option" "string option"

record Conv =
  settled :: bool
  timerCleared :: bool
  killed :: bool
  stderrText :: string
  settlements :: "(string + unit) list"

definition convStart :: Conv where
  "convStart = \<lparr> settled = False, timerCleared = False, killed = False,
                  stderrText = [], settlements = [] \<rparr>"

definition reject :: "string \<Rightarrow> Conv \<Rightarrow> Conv" where
  "reject msg s = s\<lparr>settlements := settlements s @ [Inl msg]\<rparr>"

definition resolveOk :: "Conv \<Rightarrow> Conv" where
  "resolveOk s = s\<lparr>settlements := settlements s @ [Inr ()]\<rparr>"

definition finish :: "Conv \<Rightarrow> Conv" where
  "finish s = s\<lparr>settled := True\<rparr>"

definition clearTimeout :: "Conv \<Rightarrow> Conv" where
  "clearTimeout s = s\<lparr>timerCleared := True\<rparr>"

definition onTimeout :: "(jsnum \<Rightarrow> string) \<Rightarrow> jsnum \<Rightarrow> Conv \<Rightarrow> Conv" where
  "onTimeout str timeoutSec s =
     (if settled s then s
      else reject (''ffmpeg timeout after '' @ str timeoutSec @ ''s'')
             ((clearTimeout (finish s))\<lparr>killed := True\<rparr>))"

definition onError :: "string \<Rightarrow> Conv \<Rightarrow> Conv" where
  "onError msg s =
     (if settled s then s
      else reject (''ffmpeg spawn failed: '' @ msg) (clearTimeout (finish s)))"

text \<open>\<^verbatim>\<open>stderr.slice(-2000)\<close>: the last 2000 code units.\<close>

definition sliceLast :: "nat \<Rightarrow> string \<Rightarrow> string" where
  "sliceLast n s = drop (length s - n) s"

definition onClose ::
    "(jsnum \<Rightarrow> string) \<Rightarrow> bool \<Rightarrow> int option \<Rightarrow> string option \<Rightarrow> Conv \<Rightarrow> Conv" where
  "onClose str outExists exitCode signal s0 =
     (let s = clearTimeout s0
      in if settled s then s
         else
           (let s' = finish s
            in if exitCode \<noteq> Some 0 then
                 reject (''ffmpeg exited with code '' @
                         (case exitCode of
                            Some c \<Rightarrow> str (Fin (of_int c))
                          | None \<Rightarrow> (case signal of Some sg \<Rightarrow> sg | None \<Rightarrow> ''null'')) @
                         ''. stderr: '' @ sliceLast 2000 (stderrText s')) s'
               else if \<not> outExists then
                 reject ''ffmpeg completed but output file missing'' s'
               else resolveOk s'))"

text \<open>One event of the loop. A cleared timer never calls back.\<close>

fun deliver :: "(jsnum \<Rightarrow> string) \<Rightarrow> jsnum \<Rightarrow> bool \<Rightarrow> Conv \<Rightarrow> ProcEvent \<Rightarrow> Conv" where
  "deliver str timeoutSec outExists s TimerFired =
     (if timerCleared s then s else onTimeout str timeoutSec s)"
| "deliver str timeoutSec outExists s (StderrData chunk) =
     s\<lparr>stderrText := stderrText s @ chunk\<rparr>"
| "deliver str timeoutSec outExists s (ProcError msg) = onError msg s"
| "deliver str timeoutSec outExists s (ProcClose exitCode signal) =
     onClose str outExists exitCode signal s"

text \<open>
  The run of one invocation over the events that reach it. \<open>envTimeout\<close> is the value
  of \<^verbatim>\<open>process.env.FFMPEG_TIMEOUT_SEC\<close>, \<open>outExists\<close> the answer of
  \<^verbatim>\<open>fs.existsSync(outPath)\<close>.
\<close>

definition convertToShorts ::
    "(jsnum \<Rightarrow> string) \<Rightarrow> string option \<Rightarrow> bool \<Rightarrow> ProcEvent list \<Rightarrow> Conv" where
  "convertToShorts str envTimeout outExists events =
     foldl (deliver str (getFfmpegTimeoutSec envTimeout) outExists) convStart events"

section \<open>The /process/shorts handler (routes/process.ts)\<close>

text \<open>
  The request as the handler reads it. \<^verbatim>\<open>req.file\<close> is the field \<open>reqFile\<close> and
  \<^verbatim>\<open>file.size\<close> the field \<open>size_bytes\<close>; \<^term>\<open>None\<close> is \<^verbatim>\<open>undefined\<close>.
\<close>

record UploadedFile =
  originalname :: string
  path :: fpath
  size_bytes :: nat

record Request =
  requestId :: string
  uniqueTmpDir :: fpath
  reqFile :: "UploadedFile option"
  body :: "Body option"

datatype StreamEvent = StreamEnd | StreamError string

text \<open>
  What the handler does not decide itself: the engine's conversions between strings
  and numbers, the environment variable, the answer of the prober for a path (the
  message of the error thrown, or the metadata), the bytes the transcoder process
  writes at the output path (if any) and the events it raises, the event that ends
  the read stream, and the entries the operating system refuses to remove.
\<close>

record Env =
  numberOfString :: "string \<Rightarrow> jsnum"
  stringOfNumber :: "jsnum \<Rightarrow> string"
  envTimeoutSec :: "string option"
  probe :: "fpath \<Rightarrow> string + VideoMetadata"
  ffmpegWrites :: "string option"
  ffmpegEvents :: "ProcEvent list"
  streamEvent :: StreamEvent
  denyRemove :: "fpath \<Rightarrow> bool"

record Headers =
  contentType :: string
  contentLength :: string
  xVideoWidth :: string
  xVideoHeight :: string
  xVideoDurationSec :: string
  xVideoAspectRatio :: string
  xShortsEligible :: string
  xConverted :: string
  xConversionMode :: string
  contentDisposition :: string

text \<open>
  A response is a JSON error (status, error code, message) or the video: its headers,
  the file opened for streaming and the bytes of that file.
\<close>

datatype Response = Json nat string string | Video Headers fpath string

datatype Call = Probe fpath | Convert fpath fpath ProcessOptions | Remove fpath

text \<open>
  The outcome of one request once nothing more will happen: the response (\<^term>\<open>None\<close>
  when the handler still waits for the transcoder), the state of the temporary
  directory, the calls made to the prober, the transcoder and \<^verbatim>\<open>rmDirRecursive\<close>, and
  the value of \<^verbatim>\<open>finalMeta\<close> when the headers were set.
\<close>

record Outcome =
  response :: "Response option"
  workspace :: "node option"
  calls :: "Call list"
  final :: "VideoMetadata option"

definition boolString :: "bool \<Rightarrow> string" where
  "boolString b = (if b then ''true'' else ''false'')"

definition modeString :: "ConversionMode \<Rightarrow> string" where
  "modeString m = (case m of pad \<Rightarrow> ''pad'' | blur \<Rightarrow> ''blur'')"

text \<open>Lines 145 to 151: the file name of the Content-Disposition header.\<close>

definition dispositionFilename :: "bool \<Rightarrow> string \<Rightarrow> string" where
  "dispositionFilename converted original =
     (let originalName = (if original = [] then ''video'' else original);
          ext = (if extname originalName = [] then ''.mp4'' else extname originalName);
          base = (if basename originalName ext = [] then ''video''
                  else basename originalName ext);
          safeBase = sanitizeFilename base
      in if converted then ''shorts_'' @ safeBase @ ext else safeBase @ ext)"

text \<open>
  The \<^verbatim>\<open>catch\<close> block: \<^verbatim>\<open>rmDirRecursive\<close> inside its own \<^verbatim>\<open>try\<close>, whose exception
  is dropped, then the error response chosen from the message.
\<close>

definition errorResponse :: "string \<Rightarrow> Response" where
  "errorResponse msg =
     (if msg = ''FILE_NOT_VIDEO''
        then Json 415 ''UNSUPPORTED_MEDIA'' ''File is not a video (invalid MIME type).''
      else if str_includes msg ''ffprobe'' \<or> str_includes msg ''exited with code''
        then Json 422 ''PROBE_FAILED'' msg
      else if str_includes msg ''ffmpeg'' \<or> str_includes msg ''timeout''
        then Json 500 ''CONVERSION_FAILED'' msg
      else if str_includes msg ''exceeds'' \<and> str_includes msg ''MB''
        then Json 400 ''FILE_TOO_LARGE'' msg
      else if str_includes msg ''Path must be under temp'' \<or>
              str_includes msg ''Path traversal''
        then Json 400 ''INVALID_PATH'' msg
      else Json 500 ''UNKNOWN'' msg)"

definition catchBlock :: "Env \<Rightarrow> Request \<Rightarrow> string \<Rightarrow> node option \<Rightarrow> Call list \<Rightarrow> Outcome" where
  "catchBlock env req msg ws cs =
     \<lparr> response = Some (errorResponse msg),
       workspace = snd (rmDirRecursive (denyRemove env) (uniqueTmpDir req) ws),
       calls = cs @ [Remove (uniqueTmpDir req)],
       final = None \<rparr>"

text \<open>
  Lines 143 to 179. \<^verbatim>\<open>fs.statSync\<close> throws when nothing is at the path (anything
  but a regular file is treated alike). The handlers \<^verbatim>\<open>cleanup\<close> registered on the
  read stream run when it ends or fails, after the handler has returned; both call
  \<^verbatim>\<open>rmDirRecursive\<close> and drop its exception.
\<close>

definition emit ::
    "Env \<Rightarrow> Request \<Rightarrow> UploadedFile \<Rightarrow> ProcessOptions \<Rightarrow> ShortsValidation \<Rightarrow> fpath \<Rightarrow> bool
       \<Rightarrow> VideoMetadata \<Rightarrow> node option \<Rightarrow> Call list \<Rightarrow> Outcome" where
  "emit env req f options validation outPath converted finalMeta ws cs =
     (case resolve (uniqueTmpDir req) ws outPath of
        Some (File bytes) \<Rightarrow>
          (let str = stringOfNumber env;
               conversionMode = mode options;
               headers =
                 \<lparr> contentType = ''video/mp4'',
                   contentLength = str (Fin (of_nat (length bytes))),
                   xVideoWidth = str (width finalMeta),
                   xVideoHeight = str (height finalMeta),
                   xVideoDurationSec = str (durationSec finalMeta),
                   xVideoAspectRatio = str (aspectRatio finalMeta),
                   xShortsEligible = boolString (shortsEligible validation),
                   xConverted = boolString converted,
                   xConversionMode = modeString conversionMode,
                   contentDisposition =
                     ''attachment; filename='' @ [CHR 0x22] @
                     dispositionFilename converted (originalname f) @ [CHR 0x22] \<rparr>;
               cleaned = (case streamEvent env of
                            StreamEnd \<Rightarrow>
                              snd (rmDirRecursive (denyRemove env) (uniqueTmpDir req) ws)
                          | StreamError streamErr \<Rightarrow>
                              snd (rmDirRecursive (denyRemove env) (uniqueTmpDir req) ws))
           in \<lparr> response = Some (Video headers outPath bytes),
                workspace = cleaned,
                calls = cs @ [Remove (uniqueTmpDir req)],
                final = Some finalMeta \<rparr>)
      | _ \<Rightarrow> catchBlock env req ''ENOENT: no such file or directory, stat'' ws cs)"

definition noFileMessage :: string where
  "noFileMessage =
     ''No file uploaded. Use multipart field '' @ [CHR 0x22] @ ''file'' @ [CHR 0x22] @ ''.''"

text \<open>
  \<^verbatim>\<open>processShorts\<close>, from the state \<open>ws\<close> in which the upload middleware left the
  temporary directory. An \<^verbatim>\<open>await\<close> that throws enters the \<^verbatim>\<open>catch\<close> block; the
  early \<^verbatim>\<open>return\<close> of the missing-file branch leaves the \<^verbatim>\<open>try\<close> statement, which
  has no \<^verbatim>\<open>finally\<close>.
\<close>

definition processShorts :: "Env \<Rightarrow> Request \<Rightarrow> node option \<Rightarrow> Outcome" where
  "processShorts env req ws =
     (case reqFile req of
        None \<Rightarrow>
          \<lparr> response = Some (Json 400 ''NO_FILE'' noFileMessage),
            workspace = ws, calls = [], final = None \<rparr>
      | Some f \<Rightarrow>
          (case assertFileSize (stringOfNumber env) (size_bytes f) of
             Inl msg \<Rightarrow> catchBlock env req msg ws []
           | Inr _ \<Rightarrow>
               (let options = parseProcessOptions (numberOfString env)
                                (case body req of None \<Rightarrow> Map.empty | Some b \<Rightarrow> b);
                    inputPath = path f
                in case probe env inputPath of
                     Inl msg \<Rightarrow> catchBlock env req msg ws [Probe inputPath]
                   | Inr meta \<Rightarrow>
                       (let validation = validateShorts meta options;
                            shouldConvert =
                              (forceConvert options \<or> \<not> shortsEligible validation)
                        in if shouldConvert then
                             (let outPath = outputPath (uniqueTmpDir req);
                                  ws1 = (case ffmpegWrites env of
                                           None \<Rightarrow> ws
                                         | Some bytes \<Rightarrow> writeFile ws ''output.mp4'' bytes);
                                  conv = convertToShorts (stringOfNumber env)
                                           (envTimeoutSec env)
                                           (existsSync (uniqueTmpDir req) ws1 outPath)
                                           (ffmpegEvents env);
                                  cs = [Probe inputPath, Convert inputPath outPath options]
                              in case settlements conv of
                                   [] \<Rightarrow>
                                     \<lparr> response = None, workspace = ws1, calls = cs,
                                       final = None \<rparr>
                                 | Inl msg # _ \<Rightarrow> catchBlock env req msg ws1 cs
                                 | Inr _ # _ \<Rightarrow>
                                     emit env req f options validation outPath True
                                       (meta\<lparr>width := targetWidth options,
                                             height := targetHeight options,
                                             aspectRatio := js_div (targetWidth options)
                                                              (targetHeight options)\<rparr>)
                                       ws1 cs)
                           else
                             emit env req f options validation inputPath False meta ws
                               [Probe inputPath]))))"

section \<open>Notions used in the statements\<close>

text \<open>The options a request is processed with: the parsed body, or the empty body.\<close>

definition requestOptions :: "Env \<Rightarrow> Request \<Rightarrow> ProcessOptions" where
  "requestOptions env req =
     parseProcessOptions (numberOfString env)
       (case body req of None \<Rightarrow> Map.empty | Some b \<Rightarrow> b)"

fun isConvert :: "Call \<Rightarrow> bool" where
  "isConvert (Convert i p options) = True"
| "isConvert _ = False"

definition transcoderInvoked :: "Outcome \<Rightarrow> bool" where
  "transcoderInvoked out = list_ex isConvert (calls out)"

fun isStderrData :: "ProcEvent \<Rightarrow> bool" where
  "isStderrData (StderrData chunk) = True"
| "isStderrData _ = False"

text \<open>
  The invariant of the callbacks: once \<^verbatim>\<open>settled\<close> is set the promise has been settled
  by exactly one call, and before that by none, with the timer still armed.
\<close>

definition settlesOnce :: "Conv \<Rightarrow> bool" where
  "settlesOnce s =
     (if settled s then length (settlements s) = 1
      else settlements s = [] \<and> \<not> timerCleared s)"

section \<open>Sample requests\<close>

definition meta_of :: "rat \<Rightarrow> rat \<Rightarrow> rat \<Rightarrow> VideoMetadata" where
  "meta_of w h d = \<lparr> width = Fin w, height = Fin h, durationSec = Fin d,
                     aspectRatio = js_div (Fin w) (Fin h), hasAudio = True \<rparr>"

definition sample_tmp :: fpath where
  "sample_tmp = [''tmp'', ''shorts-api'', ''r1'']"

definition sample_file :: UploadedFile where
  "sample_file = \<lparr> originalname = ''clip.mov'', path = sample_tmp @ [''clip.mov''],
                   size_bytes = 4 \<rparr>"

definition sample_ws :: "node option" where
  "sample_ws = Some (Dir [(''clip.mov'', File ''DATA'')])"

definition sample_request :: "Body \<Rightarrow> Request" where
  "sample_request b = \<lparr> requestId = ''r1'', uniqueTmpDir = sample_tmp,
                        reqFile = Some sample_file, body = Some b \<rparr>"

definition sample_str :: "jsnum \<Rightarrow> string" where
  "sample_str n =
     (case n of
        Fin q \<Rightarrow> if q = 720 then ''720'' else if q = 1280 then ''1280''
                 else if q = 1080 then ''1080'' else if q = 1920 then ''1920'' else ''#''
      | _ \<Rightarrow> ''NaN'')"

definition sample_env :: "VideoMetadata \<Rightarrow> ProcEvent list \<Rightarrow> Env" where
  "sample_env meta evs =
     \<lparr> numberOfString = (\<lambda>s. NaN),
       stringOfNumber = sample_str,
       envTimeoutSec = None,
       probe = (\<lambda>p. Inr meta),
       ffmpegWrites = Some ''OUT'',
       ffmpegEvents = evs,
       streamEvent = StreamEnd,
       denyRemove = (\<lambda>p. False) \<rparr>"

definition tolerant :: Body where
  "tolerant = [''tolerance'' \<mapsto> JNum (Fin (8 / 100))]"

definition resized :: Body where
  "resized = [''mode'' \<mapsto> JStr ''pad'', ''targetWidth'' \<mapsto> JNum (Fin 720),
              ''targetHeight'' \<mapsto> JNum (Fin 1280)]"

definition resized_options :: ProcessOptions where
  "resized_options = \<lparr> mode = pad, targetWidth = Fin 720, targetHeight = Fin 1280,
       maxDurationSec = Fin 60, tolerance = NaN, forceConvert = False \<rparr>"

section \<open>The eligibility evaluator\<close>


lemmas validate_defs = validateShorts_def push_def js_gt_def js_le_def TARGET_ASPECT_def



section \<open>The transcode timeout\<close>

lemmas timeout_defs = getFfmpegTimeoutSec_def MIN_TIMEOUT_SEC_def MAX_TIMEOUT_SEC_def
  FFMPEG_TIMEOUT_SEC_DEFAULT_def Number_isFinite_def Math_min_def js_le_def Let_def

lemmas parse_defs = parseInt10_def isStrWhiteSpace_def isDigit_def charCode_def
  digitsValue_def

text \<open>
  The claim C7 as stated fails: the configured value \<^verbatim>\<open>30\<close> is below the minimum of
  the window, and the budget is the default of 600 seconds, not the minimum of 60.
\<close>

theorem getFfmpegTimeoutSec_below_min_counterexample:
  "parseInt10 ''30'' = Fin 30 \<and> js_lt (Fin 30) MIN_TIMEOUT_SEC \<and>
   getFfmpegTimeoutSec (Some ''30'') = FFMPEG_TIMEOUT_SEC_DEFAULT \<and>
   getFfmpegTimeoutSec (Some ''30'') \<noteq> MIN_TIMEOUT_SEC"
  by (simp add: timeout_defs parse_defs)

text \<open>
  C7, amended. For every value of the environment variable the budget lies in the
  window from 60 to 3600 seconds. It is the default of 600 seconds when the variable
  is absent, empty, does not parse to a finite number, or parses to a number below
  60; otherwise it is the parsed number, capped at 3600.
\<close>

theorem getFfmpegTimeoutSec_window:
  "getFfmpegTimeoutSec raw =
     (case raw of
        None \<Rightarrow> Fin 600
      | Some r \<Rightarrow>
          if r = [] then Fin 600
          else (case parseInt10 r of
                  Fin n \<Rightarrow> if n < 60 then Fin 600 else Fin (min n 3600)
                | _ \<Rightarrow> Fin 600)) \<and>
   js_le MIN_TIMEOUT_SEC (getFfmpegTimeoutSec raw) \<and>
   js_le (getFfmpegTimeoutSec raw) MAX_TIMEOUT_SEC"
  by (auto simp: timeout_defs split: option.splits jsnum.splits)

theorem getFfmpegTimeoutSec_window_witness:
  "getFfmpegTimeoutSec (Some ''45'') = Fin 600 \<and>
   getFfmpegTimeoutSec (Some ''900'') = Fin 900 \<and>
   getFfmpegTimeoutSec (Some ''86400'') = Fin 3600 \<and>
   getFfmpegTimeoutSec (Some ''ten'') = Fin 600 \<and>
   getFfmpegTimeoutSec None = Fin 600"
  using getFfmpegTimeoutSec_window [of "Some ''45''"]
    getFfmpegTimeoutSec_window [of "Some ''900''"]
    getFfmpegTimeoutSec_window [of "Some ''86400''"]
    getFfmpegTimeoutSec_window [of "Some ''ten''"]
    getFfmpegTimeoutSec_window [of None]
  by (simp add: parse_defs)

section \<open>Settling the transcoder's promise\<close>

lemmas conv_defs = onTimeout_def onError_def onClose_def reject_def resolveOk_def
  finish_def clearTimeout_def Let_def

lemma settlesOnce_start: "settlesOnce convStart"
  by (simp add: settlesOnce_def convStart_def)

lemma deliver_settlesOnce:
  "settlesOnce s \<Longrightarrow> settlesOnce (deliver str t ox s e)"
  by (cases e) (auto simp: settlesOnce_def conv_defs split: if_splits)

lemma deliver_after_settled:
  "settled s \<Longrightarrow> settled (deliver str t ox s e) \<and>
     settlements (deliver str t ox s e) = settlements s"
  by (cases e) (auto simp: conv_defs)

lemma deliver_settles:
  "settlesOnce s \<Longrightarrow> \<not> isStderrData e \<Longrightarrow> settled (deliver str t ox s e)"
  by (cases e) (auto simp: settlesOnce_def conv_defs split: if_splits)

lemma run_settlesOnce:
  "settlesOnce s \<Longrightarrow> settlesOnce (foldl (deliver str t ox) s evs)"
  by (induction evs arbitrary: s) (simp_all add: deliver_settlesOnce)

lemma run_after_settled:
  "settled s \<Longrightarrow> settled (foldl (deliver str t ox) s evs) \<and>
     settlements (foldl (deliver str t ox) s evs) = settlements s"
proof (induction evs arbitrary: s)
  case Nil
  then show ?case by simp
next
  case (Cons e evs)
  from Cons.prems have "settled (deliver str t ox s e)"
    and "settlements (deliver str t ox s e) = settlements s"
    using deliver_after_settled by blast+
  with Cons.IH [of "deliver str t ox s e"] show ?case by simp
qed

lemma run_settles:
  "settlesOnce s \<Longrightarrow> \<exists>e\<in>set evs. \<not> isStderrData e \<Longrightarrow>
     settled (foldl (deliver str t ox) s evs)"
proof (induction evs arbitrary: s)
  case Nil
  then show ?case by simp
next
  case (Cons e evs)
  show ?case
  proof (cases "isStderrData e")
    case True
    with Cons.prems have "\<exists>e\<in>set evs. \<not> isStderrData e" by auto
    with Cons.IH [OF deliver_settlesOnce [OF Cons.prems(1)]] show ?thesis by simp
  next
    case False
    with Cons.prems(1) have "settled (deliver str t ox s e)" by (rule deliver_settles)
    then show ?thesis using run_after_settled by simp
  qed
qed

text \<open>
  C8. For every invocation of \<^verbatim>\<open>convertToShorts\<close> and every sequence of events that
  reaches its callbacks (the timer firing, an error of the process, its exit, output on
  standard error, in any order and number), the promise is settled at most once; it is
  settled exactly once as soon as the timer, an error or the exit has occurred; and
  once it is settled no later event settles it again, so the timeout and the exit of
  the process exclude each other whichever comes first.
\<close>

theorem convertToShorts_settles_once:
  "length (settlements (convertToShorts str envTimeout ox evs)) \<le> 1 \<and>
   ((\<exists>e\<in>set evs. \<not> isStderrData e) \<longrightarrow>
      length (settlements (convertToShorts str envTimeout ox evs)) = 1) \<and>
   (settled (convertToShorts str envTimeout ox evs) \<longrightarrow>
      settlements (convertToShorts str envTimeout ox (evs @ later)) =
      settlements (convertToShorts str envTimeout ox evs))"
proof -
  let ?t = "getFfmpegTimeoutSec envTimeout"
  let ?run = "foldl (deliver str ?t ox) convStart"
  have inv: "settlesOnce (?run evs)"
    by (rule run_settlesOnce [OF settlesOnce_start])
  have le: "length (settlements (?run evs)) \<le> 1"
    using inv by (auto simp: settlesOnce_def split: if_splits)
  have one: "length (settlements (?run evs)) = 1" if "\<exists>e\<in>set evs. \<not> isStderrData e"
  proof -
    have "settled (?run evs)" using run_settles [OF settlesOnce_start that] .
    with inv show ?thesis by (simp add: settlesOnce_def)
  qed
  have later: "settlements (?run (evs @ later)) = settlements (?run evs)"
    if "settled (?run evs)"
    using run_after_settled [OF that] by simp
  show ?thesis
    unfolding convertToShorts_def using le one later by blast
qed

text \<open>
  The race in both orders: the timer fires and the killed process then closes; the
  process closes with success and the timer callback and an error arrive afterwards.
\<close>

theorem convertToShorts_settles_once_witness:
  "settlements (convertToShorts (\<lambda>n. ''600'') None True
                  [TimerFired, ProcClose None (Some ''SIGKILL'')])
     = [Inl ''ffmpeg timeout after 600s''] \<and>
   settlements (convertToShorts (\<lambda>n. ''600'') None True
                  [ProcClose (Some 0) None, TimerFired, ProcError ''x''])
     = [Inr ()]"
  using convertToShorts_settles_once
      [of "\<lambda>n. ''600''" None True "[TimerFired]" "[ProcClose None (Some ''SIGKILL'')]"]
    convertToShorts_settles_once
      [of "\<lambda>n. ''600''" None True "[ProcClose (Some 0) None]"
          "[TimerFired, ProcError ''x'']"]
  by (simp add: convertToShorts_def convStart_def conv_defs)

section \<open>Removing the workspace\<close>

lemma rm_all_when_allowed:
  "(\<forall>p. \<not> deny p) \<Longrightarrow> (\<forall>bytes. n \<noteq> File bytes) \<Longrightarrow>
     rmDirNode deny dir n = (None, None)"
  "(\<forall>p. \<not> deny p) \<Longrightarrow> rmEntries deny dir es = (None, [])"
  by (induction deny dir n and deny dir es rule: rmDirNode_rmEntries.induct) auto



lemma rmDirRecursive_cleans:
  "(\<forall>p. \<not> deny p) \<Longrightarrow> (\<forall>bytes. ws \<noteq> Some (File bytes)) \<Longrightarrow>
     snd (rmDirRecursive deny dir ws) = None"
  using rm_all_when_allowed(1) [of deny _ dir]
  by (cases ws) (auto simp: rmDirRecursive_def)

lemma writeFile_no_file:
  "(\<forall>bytes. ws \<noteq> Some (File bytes)) \<Longrightarrow>
     writeFile ws name content \<noteq> Some (File bytes')"
  by (auto simp: writeFile_def split: option.splits node.splits)




section \<open>Parsing the request options\<close>

lemmas options_defs = parseProcessOptions_def getField_def Let_def js_nullish_num_def
  js_or_def js_truthy_def Math_max_def Math_min_def DEFAULT_PROCESS_OPTIONS_def

text \<open>
  C2. The claim holds for the target dimensions and fails for the tolerance: for the
  empty body, which omits the tolerance field, \<^verbatim>\<open>Number(undefined)\<close> is NaN, the
  operator \<^verbatim>\<open>??\<close> keeps it, and the tolerance returned is NaN, not the default 0.08.
\<close>

theorem parseProcessOptions_tolerance_absent:
  "tolerance (parseProcessOptions num Map.empty) = NaN \<and>
   tolerance (parseProcessOptions num Map.empty) \<noteq> tolerance DEFAULT_PROCESS_OPTIONS"
  by (simp add: options_defs)

theorem parseProcessOptions_tolerance_absent_witness:
  "tolerance (parseProcessOptions (\<lambda>s. NaN) Map.empty) = NaN"
  using parseProcessOptions_tolerance_absent [of "\<lambda>s. NaN"] by simp

lemma clamp_bounds:
  "x \<noteq> NaN \<Longrightarrow> js_le (Fin lo) (Math_max (Fin lo) (Math_min (Fin hi) x))"
  "x \<noteq> NaN \<Longrightarrow> lo \<le> hi \<Longrightarrow> js_le (Math_max (Fin lo) (Math_min (Fin hi) x)) (Fin hi)"
  by (cases x; auto simp: Math_max_def Math_min_def js_le_def)+

text \<open>The part of C2 that the code keeps: both target dimensions lie in [1, 4096].\<close>

lemma parseProcessOptions_target_bounds:
  "js_le (Fin 1) (targetWidth (parseProcessOptions num b)) \<and>
   js_le (targetWidth (parseProcessOptions num b)) (Fin 4096) \<and>
   js_le (Fin 1) (targetHeight (parseProcessOptions num b)) \<and>
   js_le (targetHeight (parseProcessOptions num b)) (Fin 4096)"
proof -
  have nn: "js_or x (Fin d) \<noteq> NaN" for x d
    by (simp add: js_or_def js_truthy_def)
  show ?thesis
    by (simp add: parseProcessOptions_def Let_def DEFAULT_PROCESS_OPTIONS_def clamp_bounds nn)
qed

lemma parseProcessOptions_mode:
  "mode (parseProcessOptions num b) = (if getField b ''mode'' = JStr ''pad'' then pad else blur)"
  by (simp add: parseProcessOptions_def Let_def DEFAULT_PROCESS_OPTIONS_def)

section \<open>The disposition file name\<close>











lemma extname_clip: "extname ''clip.mov'' = ''.mov''"
  by code_simp

lemma basename_clip: "basename ''clip.mov'' ''.mov'' = ''clip''"
  by code_simp

lemma sanitizeFilename_clip: "sanitizeFilename ''clip'' = ''clip''"
  by (simp add: sanitizeFilename_def slice_def allowedChar_def charCode_def)




lemma dispositionFilename_clip:
  "dispositionFilename converted ''clip.mov'' =
     (if converted then ''shorts_clip.mov'' else ''clip.mov'')"
  by (simp add: dispositionFilename_def extname_clip basename_clip sanitizeFilename_clip)





section \<open>Two sample runs of the handler\<close>

lemma tolerant_options: "parseProcessOptions (\<lambda>s. NaN) tolerant = DEFAULT_PROCESS_OPTIONS"
  by (simp add: tolerant_def options_defs)

lemma resized_options: "parseProcessOptions (\<lambda>s. NaN) resized = resized_options"
  by (simp add: resized_def resized_options_def options_defs)

lemma portrait_default:
  "validateShorts (meta_of 1080 1920 30) DEFAULT_PROCESS_OPTIONS =
     \<lparr> isVertical = True, aspectOk = True, durationOk = True, shortsEligible = True,
       reasons = [] \<rparr>"
  by (simp add: validate_defs meta_of_def DEFAULT_PROCESS_OPTIONS_def)

lemma portrait_resized:
  "validateShorts (meta_of 1080 1920 30) resized_options =
     \<lparr> isVertical = True, aspectOk = False, durationOk = True, shortsEligible = False,
       reasons = [''ASPECT_RATIO_MISMATCH''] \<rparr>"
  by (simp add: validate_defs meta_of_def resized_options_def)

lemma default_fields:
  "forceConvert DEFAULT_PROCESS_OPTIONS = False" "mode DEFAULT_PROCESS_OPTIONS = blur"
  by (simp_all add: DEFAULT_PROCESS_OPTIONS_def)

lemma close_with_success:
  "settlements (convertToShorts str None True [ProcClose (Some 0) None]) = [Inr ()]"
  by (simp add: convertToShorts_def convStart_def conv_defs)

text \<open>
  A portrait clip of 30 seconds, the tolerance given in the body: the staged file is
  streamed as it is and the directory is removed when the stream ends.
\<close>

lemma sample_skip:
  "processShorts (sample_env (meta_of 1080 1920 30) []) (sample_request tolerant) sample_ws =
    \<lparr> response = Some (Video
         \<lparr> contentType = ''video/mp4'', contentLength = ''#'',
           xVideoWidth = ''1080'', xVideoHeight = ''1920'', xVideoDurationSec = ''#'',
           xVideoAspectRatio = ''#'', xShortsEligible = ''true'', xConverted = ''false'',
           xConversionMode = ''blur'',
           contentDisposition =
             ''attachment; filename='' @ [CHR 0x22] @ ''clip.mov'' @ [CHR 0x22] \<rparr>
         (sample_tmp @ [''clip.mov'']) ''DATA''),
      workspace = None,
      calls = [Probe (sample_tmp @ [''clip.mov'']), Remove sample_tmp],
      final = Some (meta_of 1080 1920 30) \<rparr>"
  apply (simp add: processShorts_def assertFileSize_def sample_env_def sample_request_def
      sample_file_def MAX_FILE_SIZE_BYTES_def tolerant_options portrait_default default_fields)
  apply (simp add: emit_def sample_ws_def sample_tmp_def resolve_def rmDirRecursive_def
      boolString_def modeString_def dispositionFilename_clip default_fields)
  apply (simp add: meta_of_def sample_str_def Let_def)
  done

text \<open>
  The same clip with a body that asks for 720 by 1280 in pad mode and gives no
  tolerance: the clip is not eligible, the transcoder runs and exits with success, and
  its output is streamed.
\<close>

lemma sample_convert:
  "processShorts (sample_env (meta_of 1080 1920 30) [ProcClose (Some 0) None])
     (sample_request resized) sample_ws =
    \<lparr> response = Some (Video
         \<lparr> contentType = ''video/mp4'', contentLength = ''#'',
           xVideoWidth = ''720'', xVideoHeight = ''1280'', xVideoDurationSec = ''#'',
           xVideoAspectRatio = ''#'', xShortsEligible = ''false'', xConverted = ''true'',
           xConversionMode = ''pad'',
           contentDisposition =
             ''attachment; filename='' @ [CHR 0x22] @ ''shorts_clip.mov'' @ [CHR 0x22] \<rparr>
         (sample_tmp @ [''output.mp4'']) ''OUT''),
      workspace = None,
      calls = [Probe (sample_tmp @ [''clip.mov'']),
               Convert (sample_tmp @ [''clip.mov'']) (sample_tmp @ [''output.mp4''])
                 resized_options,
               Remove sample_tmp],
      final = Some \<lparr> width = Fin 720, height = Fin 1280, durationSec = Fin 30,
                     aspectRatio = Fin (9 / 16), hasAudio = True \<rparr> \<rparr>"
  apply (simp add: processShorts_def assertFileSize_def sample_env_def sample_request_def
      sample_file_def MAX_FILE_SIZE_BYTES_def resized_options portrait_resized)
  apply (simp add: sample_ws_def sample_tmp_def outputPath_def writeFile_def existsSync_def
      resolve_def close_with_success Let_def)
  apply (simp add: emit_def resolve_def rmDirRecursive_def boolString_def modeString_def
      dispositionFilename_clip resized_options_def)
  apply (simp add: meta_of_def sample_str_def Let_def)
  done

section \<open>The handler\<close>

text \<open>
  C1. The claim fails on the missing-file branch: the handler answers 400 NO_FILE and
  returns without a call to \<^verbatim>\<open>rmDirRecursive\<close>, so the temporary directory that the
  middleware created is left as it was. (\<^verbatim>\<open>inspect\<close> removes the directory on the
  same branch.)
\<close>

theorem processShorts_no_file_keeps_workspace:
  "processShorts env (req\<lparr>reqFile := None\<rparr>) ws =
     \<lparr> response = Some (Json 400 ''NO_FILE'' noFileMessage),
       workspace = ws, calls = [], final = None \<rparr>"
  by (simp add: processShorts_def)

text \<open>A request without a file, its directory empty: the directory is still there.\<close>

theorem processShorts_no_file_keeps_workspace_witness:
  "workspace (processShorts (sample_env (meta_of 1080 1920 30) [])
                ((sample_request Map.empty)\<lparr>reqFile := None\<rparr>) (Some (Dir [])))
     = Some (Dir [])"
  using processShorts_no_file_keeps_workspace
      [of "sample_env (meta_of 1080 1920 30) []" "sample_request Map.empty" "Some (Dir [])"]
  by simp

lemma errorResponse_not_video: "errorResponse msg \<noteq> Video h p bytes"
  by (simp add: errorResponse_def)

lemma catchBlock_not_video:
  "response (catchBlock env req msg ws cs) \<noteq> Some (Video h p bytes)"
  by (simp add: catchBlock_def errorResponse_not_video)



lemma emit_video:
  assumes "response (emit env req f options validation outPath converted finalMeta ws cs)
             = Some (Video h p bytes)"
  shows "p = outPath"
    and "resolve (uniqueTmpDir req) ws outPath = Some (File bytes)"
    and "final (emit env req f options validation outPath converted finalMeta ws cs)
           = Some finalMeta"
    and "xConverted h = boolString converted"
    and "xConversionMode h = modeString (mode options)"
    and "xVideoWidth h = stringOfNumber env (width finalMeta)"
    and "xVideoHeight h = stringOfNumber env (height finalMeta)"
    and "xVideoDurationSec h = stringOfNumber env (durationSec finalMeta)"
    and "xVideoAspectRatio h = stringOfNumber env (aspectRatio finalMeta)"
  using assms
  by (auto simp: emit_def Let_def catchBlock_not_video split: option.splits node.splits)

text \<open>The two ways in which the handler reaches the response headers.\<close>

lemma processShorts_video:
  assumes "response (processShorts env req ws) = Some (Video h p bytes)"
  obtains (skipped) f meta where
      "reqFile req = Some f" "probe env (path f) = Inr meta"
      "\<not> forceConvert (requestOptions env req)"
      "shortsEligible (validateShorts meta (requestOptions env req))"
      "processShorts env req ws =
         emit env req f (requestOptions env req)
           (validateShorts meta (requestOptions env req)) (path f) False meta ws
           [Probe (path f)]"
  | (converted) f meta ws1 cs where
      "reqFile req = Some f" "probe env (path f) = Inr meta"
      "processShorts env req ws =
         emit env req f (requestOptions env req)
           (validateShorts meta (requestOptions env req)) (outputPath (uniqueTmpDir req)) True
           (meta\<lparr>width := targetWidth (requestOptions env req),
                 height := targetHeight (requestOptions env req),
                 aspectRatio := js_div (targetWidth (requestOptions env req))
                                       (targetHeight (requestOptions env req))\<rparr>)
           ws1 cs"
proof (cases "reqFile req")
  case None
  with assms show ?thesis by (simp add: processShorts_def)
next
  case (Some f)
  show ?thesis
  proof (cases "probe env (path f)")
    case (Inl msg)
    with assms Some show ?thesis
      by (simp add: processShorts_def Let_def catchBlock_not_video split: sum.splits)
  next
    case (Inr meta)
    show ?thesis
    proof (cases "forceConvert (requestOptions env req) \<or>
                  \<not> shortsEligible (validateShorts meta (requestOptions env req))")
      case True
      with assms Some Inr have "\<exists>ws1 cs. processShorts env req ws =
         emit env req f (requestOptions env req)
           (validateShorts meta (requestOptions env req)) (outputPath (uniqueTmpDir req)) True
           (meta\<lparr>width := targetWidth (requestOptions env req),
                 height := targetHeight (requestOptions env req),
                 aspectRatio := js_div (targetWidth (requestOptions env req))
                                       (targetHeight (requestOptions env req))\<rparr>)
           ws1 cs"
        by (auto simp: processShorts_def Let_def requestOptions_def catchBlock_not_video
            split: sum.splits list.splits)
      with Some Inr converted show ?thesis by blast
    next
      case False
      with assms Some Inr have "processShorts env req ws =
         emit env req f (requestOptions env req)
           (validateShorts meta (requestOptions env req)) (path f) False meta ws
           [Probe (path f)]"
        by (auto simp: processShorts_def Let_def requestOptions_def catchBlock_not_video
            split: sum.splits)
      with Some Inr False skipped show ?thesis by blast
    qed
  qed
qed



text \<open>
  On every path of a request with a file that ends with a response the directory is
  removed, provided no removal is refused.
\<close>

lemma catchBlock_cleans:
  "(\<forall>p. \<not> denyRemove env p) \<Longrightarrow> (\<forall>bytes. ws \<noteq> Some (File bytes)) \<Longrightarrow>
     workspace (catchBlock env req msg ws cs) = None"
  by (simp add: catchBlock_def rmDirRecursive_cleans)

lemma emit_cleans:
  "(\<forall>p. \<not> denyRemove env p) \<Longrightarrow> (\<forall>bytes. ws \<noteq> Some (File bytes)) \<Longrightarrow>
     workspace (emit env req f options validation outPath converted finalMeta ws cs) = None"
  by (simp add: emit_def Let_def catchBlock_cleans rmDirRecursive_cleans
      split: option.splits node.splits StreamEvent.splits)

lemma processShorts_cleans:
  assumes upl: "reqFile req = Some f"
    and allowed: "\<forall>p. \<not> denyRemove env p"
    and dir: "\<forall>bytes. ws \<noteq> Some (File bytes)"
    and answered: "response (processShorts env req ws) \<noteq> None"
  shows "workspace (processShorts env req ws) = None"
proof -
  let ?ws1 = "case ffmpegWrites env of None \<Rightarrow> ws
              | Some bytes \<Rightarrow> writeFile ws ''output.mp4'' bytes"
  have dir1: "\<forall>bytes. ?ws1 \<noteq> Some (File bytes)"
    using dir writeFile_no_file [OF dir] by (auto split: option.splits)
  show ?thesis
    using upl answered
    by (auto simp: processShorts_def Let_def catchBlock_cleans [OF allowed dir]
        catchBlock_cleans [OF allowed dir1] emit_cleans [OF allowed dir]
        emit_cleans [OF allowed dir1]
        split: sum.splits list.splits)
qed








text \<open>
  C5. Whenever the response reports a conversion, the final metadata has the width and
  height of the request's options, their quotient as aspect ratio, and the duration and
  audio flag of the probed metadata; the headers render these values, and the file
  streamed is the transcoder's output (it is not probed again).
\<close>

theorem processShorts_converted_metadata:
  "reqFile req = Some f \<and> probe env (path f) = Inr meta \<and>
   response (processShorts env req ws) = Some (Video h p bytes) \<and> xConverted h = ''true'' \<longrightarrow>
     final (processShorts env req ws) =
       Some \<lparr> width = targetWidth (requestOptions env req),
              height = targetHeight (requestOptions env req),
              durationSec = durationSec meta,
              aspectRatio = js_div (targetWidth (requestOptions env req))
                                   (targetHeight (requestOptions env req)),
              hasAudio = hasAudio meta \<rparr> \<and>
     xVideoWidth h = stringOfNumber env (targetWidth (requestOptions env req)) \<and>
     xVideoHeight h = stringOfNumber env (targetHeight (requestOptions env req)) \<and>
     xVideoAspectRatio h =
       stringOfNumber env (js_div (targetWidth (requestOptions env req))
                                  (targetHeight (requestOptions env req))) \<and>
     xVideoDurationSec h = stringOfNumber env (durationSec meta) \<and>
     p = outputPath (uniqueTmpDir req)"
proof (intro impI, elim conjE)
  assume upl: "reqFile req = Some f" and probed: "probe env (path f) = Inr meta"
    and video: "response (processShorts env req ws) = Some (Video h p bytes)"
    and conv: "xConverted h = ''true''"
  let ?o = "requestOptions env req"
  from video show "final (processShorts env req ws) =
       Some \<lparr> width = targetWidth ?o, height = targetHeight ?o,
              durationSec = durationSec meta,
              aspectRatio = js_div (targetWidth ?o) (targetHeight ?o),
              hasAudio = hasAudio meta \<rparr> \<and>
     xVideoWidth h = stringOfNumber env (targetWidth ?o) \<and>
     xVideoHeight h = stringOfNumber env (targetHeight ?o) \<and>
     xVideoAspectRatio h = stringOfNumber env (js_div (targetWidth ?o) (targetHeight ?o)) \<and>
     xVideoDurationSec h = stringOfNumber env (durationSec meta) \<and>
     p = outputPath (uniqueTmpDir req)"
  proof (cases rule: processShorts_video)
    case (skipped f' meta')
    from video skipped(5) have "xConverted h = boolString False"
      using emit_video(4) by metis
    with conv show ?thesis by (simp add: boolString_def)
  next
    case (converted f' meta' ws1 cs)
    from converted(1,2) upl probed have same: "f' = f" "meta' = meta" by simp_all
    let ?m = "meta\<lparr>width := targetWidth ?o, height := targetHeight ?o,
                     aspectRatio := js_div (targetWidth ?o) (targetHeight ?o)\<rparr>"
    from video converted(3) same
    have r: "response (emit env req f ?o (validateShorts meta ?o)
                (outputPath (uniqueTmpDir req)) True ?m ws1 cs) = Some (Video h p bytes)"
      by simp
    have "final (processShorts env req ws) = Some ?m"
      using emit_video(3) [OF r] converted(3) same by simp
    moreover have "p = outputPath (uniqueTmpDir req)"
      using emit_video(1) [OF r] .
    moreover have "xVideoWidth h = stringOfNumber env (targetWidth ?o)"
      using emit_video(6) [OF r] by simp
    moreover have "xVideoHeight h = stringOfNumber env (targetHeight ?o)"
      using emit_video(7) [OF r] by simp
    moreover have "xVideoDurationSec h = stringOfNumber env (durationSec meta)"
      using emit_video(8) [OF r] by simp
    moreover have "xVideoAspectRatio h =
        stringOfNumber env (js_div (targetWidth ?o) (targetHeight ?o))"
      using emit_video(9) [OF r] by simp
    ultimately show ?thesis by (cases meta) simp
  qed
qed

theorem processShorts_converted_metadata_witness:
  "final (processShorts (sample_env (meta_of 1080 1920 30) [ProcClose (Some 0) None])
            (sample_request resized) sample_ws)
     = Some \<lparr> width = Fin 720, height = Fin 1280, durationSec = Fin 30,
              aspectRatio = Fin (9 / 16), hasAudio = True \<rparr>"
  using processShorts_converted_metadata
      [of "sample_request resized" sample_file
          "sample_env (meta_of 1080 1920 30) [ProcClose (Some 0) None]"
          "meta_of 1080 1920 30" sample_ws]
  by (simp add: sample_convert)


text \<open>
  C10. Every video response carries the header X-Conversion-Mode, and its value is the
  mode of the request's options: \<^verbatim>\<open>pad\<close> when the body asks for it, else \<^verbatim>\<open>blur\<close>,
  whether or not a conversion ran.
\<close>

theorem processShorts_mode_header:
  "response (processShorts env req ws) = Some (Video h p bytes) \<longrightarrow>
     xConversionMode h = modeString (mode (requestOptions env req)) \<and>
     mode (requestOptions env req) =
       (if getField (case body req of None \<Rightarrow> Map.empty | Some b \<Rightarrow> b) ''mode'' = JStr ''pad''
        then pad else blur)"
proof
  assume video: "response (processShorts env req ws) = Some (Video h p bytes)"
  then have "xConversionMode h = modeString (mode (requestOptions env req))"
  proof (cases rule: processShorts_video)
    case (skipped f meta)
    with video show ?thesis using emit_video(5) by metis
  next
    case (converted f meta ws1 cs)
    with video show ?thesis using emit_video(5) by metis
  qed
  then show "xConversionMode h = modeString (mode (requestOptions env req)) \<and>
     mode (requestOptions env req) =
       (if getField (case body req of None \<Rightarrow> Map.empty | Some b \<Rightarrow> b) ''mode'' = JStr ''pad''
        then pad else blur)"
    by (simp add: requestOptions_def parseProcessOptions_mode)
qed


text \<open>
  The run without conversion: the header says \<^verbatim>\<open>blur\<close>, the default, while
  \<^verbatim>\<open>converted\<close> is false and the transcoder was not invoked.
\<close>

theorem processShorts_mode_header_witness:
  "(\<exists>h p bytes.
      response (processShorts (sample_env (meta_of 1080 1920 30) []) (sample_request tolerant)
                  sample_ws) = Some (Video h p bytes) \<and>
      xConverted h = ''false'' \<and> xConversionMode h = ''blur'') \<and>
   \<not> transcoderInvoked
       (processShorts (sample_env (meta_of 1080 1920 30) []) (sample_request tolerant) sample_ws)"
  using processShorts_mode_header
      [of "sample_env (meta_of 1080 1920 30) []" "sample_request tolerant" sample_ws]
  by (simp add: sample_skip transcoderInvoked_def)

end
